theory Spec2Isabelle
  imports Main
begin

section \<open>Python values and exceptions\<close>

text \<open>
  The values that \<^verbatim>\<open>json.loads\<close> produces and that the handler of \<^verbatim>\<open>main.py\<close>
  passes on to the store, to the spreadsheet and to the client. A dict is an association
  list in insertion order; \<open>PyFloat\<close> carries the float by its \<^verbatim>\<open>repr\<close>.
\<close>

datatype pyval =
    PyNone
  | PyBool bool
  | PyInt int
  | PyFloat string
  | PyStr string
  | PyList "pyval list"
  | PyDict "(string \<times> pyval) list"

text \<open>
  An exception instance (of a subclass of \<^verbatim>\<open>Exception\<close>). \<open>KeyError\<close> and
  \<open>TypeError\<close> are the two the handler's own subscripts raise; \<open>Exception m\<close> is any other
  instance \<open>e\<close> with \<^verbatim>\<open>str(e) == m\<close>, among them the one line 40 raises and the ones
  the libraries raise.
\<close>

datatype exn = KeyError string | TypeError string | Exception string

text \<open>\<^verbatim>\<open>str(e)\<close>. For a \<open>KeyError\<close> it is the \<^verbatim>\<open>repr\<close> of the key, which for the keys
  of this program (\<^verbatim>\<open>'title'\<close>, \<^verbatim>\<open>'genre'\<close>) is the key between single quotes.\<close>

fun str_exn :: "exn \<Rightarrow> string" where
  "str_exn (KeyError k) = [CHR 0x27] @ k @ [CHR 0x27]"
| "str_exn (TypeError m) = m"
| "str_exn (Exception m) = m"

text \<open>\<^verbatim>\<open>v[k]\<close> for a string key \<open>k\<close>: a dict looks the key up and raises \<open>KeyError\<close> when it
  is missing; every other value raises \<open>TypeError\<close> (messages of CPython 3.11).\<close>

fun getitem :: "pyval \<Rightarrow> string \<Rightarrow> exn + pyval" where
  "getitem (PyDict kvs) k = (case map_of kvs k of None \<Rightarrow> Inl (KeyError k) | Some v \<Rightarrow> Inr v)"
| "getitem (PyList xs) k = Inl (TypeError ''list indices must be integers or slices, not str'')"
| "getitem (PyStr s) k =
     Inl (TypeError (''string indices must be integers, not '' @ [CHR 0x27] @ ''str'' @ [CHR 0x27]))"
| "getitem PyNone k =
     Inl (TypeError ([CHR 0x27] @ ''NoneType'' @ [CHR 0x27] @ '' object is not subscriptable''))"
| "getitem (PyBool b) k =
     Inl (TypeError ([CHR 0x27] @ ''bool'' @ [CHR 0x27] @ '' object is not subscriptable''))"
| "getitem (PyInt i) k =
     Inl (TypeError ([CHR 0x27] @ ''int'' @ [CHR 0x27] @ '' object is not subscriptable''))"
| "getitem (PyFloat f) k =
     Inl (TypeError ([CHR 0x27] @ ''float'' @ [CHR 0x27] @ '' object is not subscriptable''))"

section \<open>Timestamps\<close>

text \<open>The naive local time that \<^verbatim>\<open>datetime.now()\<close> returns.\<close>

record datetime =
  year :: nat
  month :: nat
  day :: nat
  hour :: nat
  minute :: nat
  second :: nat

text \<open>The last decimal digit of a number, as a character.\<close>

definition digit :: "nat \<Rightarrow> char" where
  "digit n = ''0123456789'' ! (n mod 10)"

definition pad2 :: "nat \<Rightarrow> string" where
  "pad2 n = [digit (n div 10), digit n]"

definition pad4 :: "nat \<Rightarrow> string" where
  "pad4 n = [digit (n div 1000), digit (n div 100), digit (n div 10), digit n]"

text \<open>\<^verbatim>\<open>dt.strftime("%m/%d/%Y %H:%M:%S")\<close> (line 109): every field zero-padded decimal,
  the year to four digits.\<close>

definition strftime :: "datetime \<Rightarrow> string" where
  "strftime dt =
     pad2 (month dt) @ ''/'' @ pad2 (day dt) @ ''/'' @ pad4 (year dt) @ '' '' @
     pad2 (hour dt) @ '':'' @ pad2 (minute dt) @ '':'' @ pad2 (second dt)"




section \<open>Process start: the module level of \<^verbatim>\<open>main.py\<close>\<close>

text \<open>
  What the libraries called at import time answer is not decided by this program: it is a
  parameter. \<open>None\<close> is a call that returns, \<open>Some e\<close> one that raises \<open>e\<close>.
\<close>

record startup_env =
  from_json_keyfile_name :: "string \<Rightarrow> exn option"
  authorize :: "exn option"
  client_open :: "string \<Rightarrow> exn option"
  StaticFiles :: "string \<Rightarrow> exn option"

text \<open>\<^verbatim>\<open>load_dotenv()\<close> (line 19): the assignments of the \<^verbatim>\<open>.env\<close> file enter the
  process environment where the environment has no value of its own.\<close>

definition load_dotenv :: "(string \<rightharpoonup> string) \<Rightarrow> (string \<rightharpoonup> string) \<Rightarrow> (string \<rightharpoonup> string)" where
  "load_dotenv dotenv environ0 = dotenv ++ environ0"

definition SHEET_NAME :: string where
  "SHEET_NAME = ''Family_Library_Books''"

text \<open>The module's globals that the handler reads: the process environment, the four
  store options and \<open>sheet\<close>, the spreadsheet opened at line 36 (held by its name).\<close>

record globals =
  environ :: "string \<rightharpoonup> string"
  DB_HOST :: "string option"
  DB_NAME :: "string option"
  DB_USER :: "string option"
  DB_PASS :: "string option"
  sheet :: string

text \<open>Truth value of the result of \<^verbatim>\<open>os.getenv\<close>: \<^verbatim>\<open>None\<close> and the empty string are
  false.\<close>

definition truthy :: "string option \<Rightarrow> bool" where
  "truthy v = (case v of None \<Rightarrow> False | Some s \<Rightarrow> s \<noteq> [])"

text \<open>
  Lines 19 to 54 in their order: the four \<^verbatim>\<open>os.getenv\<close>, the credentials and the
  spreadsheet (lines 34 to 36), the check of line 39, the mount of line 54. \<open>Inl e\<close> is an
  import that raises \<open>e\<close>: no route is ever registered. \<open>Inr g\<close> is a started process.
\<close>

definition module_init ::
  "startup_env \<Rightarrow> (string \<rightharpoonup> string) \<Rightarrow> (string \<rightharpoonup> string) \<Rightarrow> exn + globals" where
  "module_init senv dotenv environ0 =
     (let env_vars = load_dotenv dotenv environ0;
          db_host = env_vars ''DB_HOST'';
          db_name = env_vars ''DB_NAME'';
          db_user = env_vars ''DB_USER'';
          db_pass = env_vars ''DB_PASS''
      in case from_json_keyfile_name senv ''credentials.json'' of
           Some e \<Rightarrow> Inl e
         | None \<Rightarrow>
        (case authorize senv of
           Some e \<Rightarrow> Inl e
         | None \<Rightarrow>
        (case client_open senv SHEET_NAME of
           Some e \<Rightarrow> Inl e
         | None \<Rightarrow>
        if \<not> list_all truthy [db_host, db_name, db_user, db_pass]
        then Inl (Exception ''Missing one or more required database environment variables'')
        else
        (case StaticFiles senv ''static'' of
           Some e \<Rightarrow> Inl e
         | None \<Rightarrow>
             Inr \<lparr>environ = env_vars, DB_HOST = db_host, DB_NAME = db_name,
                  DB_USER = db_user, DB_PASS = db_pass, sheet = SHEET_NAME\<rparr>))))"

section \<open>The world of a request\<close>

text \<open>One event for each call that leaves the handler, in the order of the calls.\<close>

datatype event =
    EvNamedTemporaryFile
  | EvFileRead
  | EvTmpWrite
  | EvGenaiClient
  | EvFilesUpload
  | EvGenerateContent
  | EvPrint
  | EvJsonLoads
  | EvConnect
  | EvCursor
  | EvExecute
  | EvFetchone
  | EvCommit
  | EvCurClose
  | EvConnClose
  | EvWorksheet
  | EvNow
  | EvAppendRow
  | EvPathExists
  | EvRemove

text \<open>
  \<open>files\<close>: the files on disk with their contents; \<open>books\<close>: the committed rows
  \<open>(id, title, genre)\<close> of the table \<^verbatim>\<open>books\<close>; \<open>sheets\<close>: the rows of each worksheet, by
  spreadsheet name and worksheet name; \<open>trace\<close>: the calls made so far.
\<close>

record world =
  files :: "string \<rightharpoonup> string"
  books :: "(int \<times> pyval \<times> pyval) list"
  sheets :: "string \<times> string \<Rightarrow> pyval list list"
  trace :: "event list"

text \<open>The uploaded file: its name and its bytes.\<close>

record upload =
  filename :: string
  content :: string

text \<open>
  What the outside answers during one request. A result \<open>exn + 'a\<close> is \<open>Inl e\<close> when the
  call raises \<open>e\<close>; an \<open>exn option\<close> is \<open>Some e\<close> when the call raises \<open>e\<close>.
  \<open>execute\<close> answers with the \<^verbatim>\<open>id\<close> that \<^verbatim>\<open>RETURNING id\<close> yields.
\<close>

record env =
  splitext :: "string \<Rightarrow> string \<times> string"
  NamedTemporaryFile :: "string \<Rightarrow> exn + string"
  file_read :: "exn option"
  tmp_write :: "string \<Rightarrow> exn option"
  genai_Client :: "string option \<Rightarrow> exn option"
  files_upload :: "string \<Rightarrow> exn option"
  generate_content :: "string \<Rightarrow> exn + string option"
  json_loads :: "string \<Rightarrow> exn + pyval"
  connect :: "string option \<Rightarrow> string option \<Rightarrow> string option \<Rightarrow> string option \<Rightarrow> exn option"
  execute :: "pyval \<Rightarrow> pyval \<Rightarrow> exn + int"
  commit :: "exn option"
  worksheet :: "string \<Rightarrow> string \<Rightarrow> exn option"
  now :: datetime
  append_row :: "string \<Rightarrow> string \<Rightarrow> pyval list \<Rightarrow> exn option"

section \<open>The handler \<^verbatim>\<open>upload_book\<close>\<close>

text \<open>
  The state of one invocation: the world and the local \<^verbatim>\<open>temp_path\<close>, the only local the
  \<^verbatim>\<open>finally\<close> clause inspects (\<open>None\<close>: not bound).
\<close>

record frame =
  wld :: world
  temp_path :: "string option"

type_synonym 'a io = "frame \<Rightarrow> (exn + 'a) \<times> frame"

text \<open>Sequencing: an exception ends the \<^verbatim>\<open>try\<close> body with the frame as it is.\<close>

definition bind_io :: "'a io \<Rightarrow> ('a \<Rightarrow> 'b io) \<Rightarrow> 'b io" where
  "bind_io m k fr = (case m fr of (Inl e, fr') \<Rightarrow> (Inl e, fr') | (Inr x, fr') \<Rightarrow> k x fr')"

definition return_io :: "'a \<Rightarrow> 'a io" where
  "return_io x fr = (Inr x, fr)"

text \<open>A call to the outside: it is recorded, then it returns or raises.\<close>

definition call :: "event \<Rightarrow> exn + 'a \<Rightarrow> 'a io" where
  "call ev r fr = (r, fr\<lparr>wld := (wld fr)\<lparr>trace := trace (wld fr) @ [ev]\<rparr>\<rparr>)"

definition call_unit :: "event \<Rightarrow> exn option \<Rightarrow> unit io" where
  "call_unit ev r = call ev (case r of None \<Rightarrow> Inr () | Some e \<Rightarrow> Inl e)"

text \<open>The effect of a call that returned.\<close>

definition effect :: "(world \<Rightarrow> world) \<Rightarrow> unit io" where
  "effect f fr = (Inr (), fr\<lparr>wld := f (wld fr)\<rparr>)"

definition raise_or :: "exn + 'a \<Rightarrow> 'a io" where
  "raise_or r fr = (r, fr)"

definition assign_temp_path :: "string \<Rightarrow> unit io" where
  "assign_temp_path p fr = (Inr (), fr\<lparr>temp_path := Some p\<rparr>)"

text \<open>The dict of lines 113 to 117.\<close>

definition success_response :: "pyval \<Rightarrow> pyval" where
  "success_response book_data =
     PyDict [(''status'', PyStr ''success''),
             (''book'', book_data),
             (''message'', PyStr ''Book inserted successfully!'')]"

text \<open>\<^verbatim>\<open>json.loads(response.text)\<close>: a text that is \<^verbatim>\<open>None\<close> raises \<open>TypeError\<close>.\<close>

definition loads_text :: "env \<Rightarrow> string option \<Rightarrow> exn + pyval" where
  "loads_text env text =
     (case text of
        None \<Rightarrow> Inl (TypeError ''the JSON object must be str, bytes or bytearray, not NoneType'')
      | Some t \<Rightarrow> json_loads env t)"

text \<open>
  The body of the \<^verbatim>\<open>try\<close> (lines 64 to 117), call by call. The temporary file exists
  from the moment \<^verbatim>\<open>NamedTemporaryFile\<close> returns (\<^verbatim>\<open>delete=False\<close>: leaving the
  \<^verbatim>\<open>with\<close> block closes it and keeps it); \<^verbatim>\<open>temp_path\<close> is bound after the write.
  The inserted row is pending until \<^verbatim>\<open>conn.commit()\<close> returns, and lost when an
  exception leaves the body before. \<^verbatim>\<open>print\<close>, \<^verbatim>\<open>conn.cursor()\<close>,
  \<^verbatim>\<open>cur.fetchone()\<close> after an insert that returned, the two \<^verbatim>\<open>close()\<close> and
  \<^verbatim>\<open>datetime.now()\<close> are taken to return; every other call may raise. An append that
  raises is taken to have appended nothing.
\<close>

definition try_body :: "globals \<Rightarrow> env \<Rightarrow> upload \<Rightarrow> pyval io" where
  "try_body g env file =
     bind_io (call EvNamedTemporaryFile
                (NamedTemporaryFile env (snd (splitext env (filename file))))) (\<lambda>tmp.
     bind_io (effect (\<lambda>w. w\<lparr>files := (files w)(tmp \<mapsto> [])\<rparr>)) (\<lambda>_.
     bind_io (call_unit EvFileRead (file_read env)) (\<lambda>_.
     bind_io (call_unit EvTmpWrite (tmp_write env (content file))) (\<lambda>_.
     bind_io (effect (\<lambda>w. w\<lparr>files := (files w)(tmp \<mapsto> content file)\<rparr>)) (\<lambda>_.
     bind_io (assign_temp_path tmp) (\<lambda>_.
     bind_io (call_unit EvGenaiClient (genai_Client env (environ g ''GEMINI_API_KEY''))) (\<lambda>_.
     bind_io (call_unit EvFilesUpload (files_upload env tmp)) (\<lambda>_.
     bind_io (call EvGenerateContent (generate_content env tmp)) (\<lambda>text.
     bind_io (call_unit EvPrint None) (\<lambda>_.
     bind_io (call EvJsonLoads (loads_text env text)) (\<lambda>book_data.
     bind_io (call_unit EvConnect
                (connect env (DB_HOST g) (DB_NAME g) (DB_USER g) (DB_PASS g))) (\<lambda>_.
     bind_io (call_unit EvCursor None) (\<lambda>_.
     bind_io (raise_or (getitem book_data ''title'')) (\<lambda>title.
     bind_io (raise_or (getitem book_data ''genre'')) (\<lambda>genre.
     bind_io (call EvExecute (execute env title genre)) (\<lambda>returning_id.
     bind_io (call_unit EvFetchone None) (\<lambda>_.
     bind_io (return_io returning_id) (\<lambda>new_id.
     bind_io (call_unit EvCommit (commit env)) (\<lambda>_.
     bind_io (effect (\<lambda>w. w\<lparr>books := books w @ [(new_id, title, genre)]\<rparr>)) (\<lambda>_.
     bind_io (call_unit EvCurClose None) (\<lambda>_.
     bind_io (call_unit EvConnClose None) (\<lambda>_.
     bind_io (call_unit EvWorksheet (worksheet env (sheet g) ''Sheet1'')) (\<lambda>_.
     bind_io (call_unit EvNow None) (\<lambda>_.
     bind_io (return_io (strftime (now env))) (\<lambda>added_at.
     bind_io (raise_or (getitem book_data ''title'')) (\<lambda>title'.
     bind_io (raise_or (getitem book_data ''genre'')) (\<lambda>genre'.
     bind_io (return_io [PyInt new_id, title', genre', PyStr added_at]) (\<lambda>row.
     bind_io (call_unit EvAppendRow (append_row env (sheet g) ''Sheet1'' row)) (\<lambda>_.
     bind_io (effect (\<lambda>w. w\<lparr>sheets := (sheets w)
                ((sheet g, ''Sheet1'') := sheets w (sheet g, ''Sheet1'') @ [row])\<rparr>)) (\<lambda>_.
     return_io (success_response book_data)))))))))))))))))))))))))))))))"

text \<open>
  The \<^verbatim>\<open>finally\<close> clause (lines 121 to 124): when \<^verbatim>\<open>temp_path\<close> is bound and the file
  exists, it is removed. \<^verbatim>\<open>os.remove\<close> of a file this process has just created is taken
  to succeed.
\<close>

definition finally_clause :: "frame \<Rightarrow> frame" where
  "finally_clause fr =
     (case temp_path fr of
        None \<Rightarrow> fr
      | Some p \<Rightarrow>
          (let w1 = (wld fr)\<lparr>trace := trace (wld fr) @ [EvPathExists]\<rparr>
           in if files w1 p \<noteq> None
              then fr\<lparr>wld := w1\<lparr>files := (files w1)(p := None), trace := trace w1 @ [EvRemove]\<rparr>\<rparr>
              else fr\<lparr>wld := w1\<rparr>))"

text \<open>What the handler hands to the framework: the returned dict, or the
  \<^verbatim>\<open>HTTPException(status_code, detail)\<close> of line 120.\<close>

datatype outcome = Returned pyval | HTTPException nat string

definition upload_book :: "globals \<Rightarrow> env \<Rightarrow> upload \<Rightarrow> world \<Rightarrow> outcome \<times> world" where
  "upload_book g env file w =
     (case try_body g env file \<lparr>wld = w, temp_path = None\<rparr> of
        (Inr response, fr) \<Rightarrow> (Returned response, wld (finally_clause fr))
      | (Inl e, fr) \<Rightarrow> (HTTPException 500 (str_exn e), wld (finally_clause fr)))"

text \<open>The calls of one request: what the trace has gained.\<close>

definition new_events :: "world \<Rightarrow> world \<Rightarrow> event list" where
  "new_events w w' = drop (length (trace w)) (trace w')"

section \<open>A concrete request\<close>

text \<open>
  The scenario of the upload of \<^verbatim>\<open>cover.jpg\<close>: a started process, an outside in which
  every call returns, and the inference text
  \<^verbatim>\<open>{"title":"Dune","genre":"Science Fiction"}\<close> with the dict it parses to.
\<close>

definition cover_jpg :: upload where
  "cover_jpg = \<lparr>filename = ''cover.jpg'', content = ''JFIF''\<rparr>"

definition library_environ :: "string \<rightharpoonup> string" where
  "library_environ =
     [''DB_HOST'' \<mapsto> ''localhost'', ''DB_NAME'' \<mapsto> ''library'', ''DB_USER'' \<mapsto> ''librarian'',
      ''DB_PASS'' \<mapsto> ''secret'', ''GEMINI_API_KEY'' \<mapsto> ''key'']"

definition store_only_environ :: "string \<rightharpoonup> string" where
  "store_only_environ =
     [''DB_HOST'' \<mapsto> ''localhost'', ''DB_NAME'' \<mapsto> ''library'', ''DB_USER'' \<mapsto> ''librarian'',
      ''DB_PASS'' \<mapsto> ''secret'']"

definition no_user_environ :: "string \<rightharpoonup> string" where
  "no_user_environ =
     [''DB_HOST'' \<mapsto> ''localhost'', ''DB_NAME'' \<mapsto> ''library'', ''DB_PASS'' \<mapsto> ''secret'',
      ''GEMINI_API_KEY'' \<mapsto> ''key'']"

definition services_up :: startup_env where
  "services_up =
     \<lparr>from_json_keyfile_name = (\<lambda>_. None), authorize = None, client_open = (\<lambda>_. None),
      StaticFiles = (\<lambda>_. None)\<rparr>"

definition started :: globals where
  "started =
     \<lparr>environ = library_environ, DB_HOST = Some ''localhost'', DB_NAME = Some ''library'',
      DB_USER = Some ''librarian'', DB_PASS = Some ''secret'', sheet = SHEET_NAME\<rparr>"

definition dune_text :: string where
  \<open>dune_text = ''{"title":"Dune","genre":"Science Fiction"}''\<close>

definition dune :: pyval where
  "dune = PyDict [(''title'', PyStr ''Dune''), (''genre'', PyStr ''Science Fiction'')]"

definition dune_with_year :: pyval where
  "dune_with_year =
     PyDict [(''title'', PyStr ''Dune''), (''genre'', PyStr ''Science Fiction''),
             (''year'', PyInt 1965)]"

definition noon :: datetime where
  "noon = \<lparr>year = 2024, month = 3, day = 9, hour = 12, minute = 0, second = 5\<rparr>"

definition dune_env :: env where
  "dune_env =
     \<lparr>splitext = (\<lambda>_. (''cover'', ''.jpg'')),
      NamedTemporaryFile = (\<lambda>suffix. Inr (''/tmp/tmpk3x9'' @ suffix)),
      file_read = None,
      tmp_write = (\<lambda>_. None),
      genai_Client = (\<lambda>key. case key of None \<Rightarrow> Some (Exception ''Missing key'') | Some _ \<Rightarrow> None),
      files_upload = (\<lambda>_. None),
      generate_content = (\<lambda>_. Inr (Some dune_text)),
      json_loads = (\<lambda>_. Inr dune),
      connect = (\<lambda>_ _ _ _. None),
      execute = (\<lambda>_ _. Inr 7),
      commit = None,
      worksheet = (\<lambda>_ _. None),
      now = noon,
      append_row = (\<lambda>_ _ _. None)\<rparr>"

definition empty_world :: world where
  "empty_world = \<lparr>files = Map.empty, books = [], sheets = (\<lambda>_. []), trace = []\<rparr>"

text \<open>Variations of the scenario: one call of the outside raises, or the inference
  answers something else.\<close>

definition disk_full_env :: env where
  "disk_full_env =
     dune_env\<lparr>tmp_write := \<lambda>_. Some (Exception ''[Errno 28] No space left on device'')\<rparr>"

definition exhausted_env :: env where
  "exhausted_env = dune_env\<lparr>generate_content := \<lambda>_. Inl (Exception ''429 RESOURCE_EXHAUSTED'')\<rparr>"


definition year_env :: env where
  "year_env = dune_env\<lparr>json_loads := \<lambda>_. Inr dune_with_year\<rparr>"

definition refused_env :: env where
  "refused_env = dune_env\<lparr>connect := \<lambda>_ _ _ _. Some (Exception ''connection refused'')\<rparr>"

definition commit_fails_env :: env where
  "commit_fails_env = dune_env\<lparr>commit := Some (Exception ''server closed the connection'')\<rparr>"

definition quota_env :: env where
  "quota_env = dune_env\<lparr>append_row := \<lambda>_ _ _. Some (Exception ''Quota exceeded'')\<rparr>"

definition no_dotenv :: "string \<rightharpoonup> string" where
  "no_dotenv = Map.empty"

definition store_only_started :: globals where
  "store_only_started =
     \<lparr>environ = store_only_environ, DB_HOST = Some ''localhost'', DB_NAME = Some ''library'',
      DB_USER = Some ''librarian'', DB_PASS = Some ''secret'', sheet = ''Family_Library_Books''\<rparr>"

section \<open>Unfolding the handler\<close>

text \<open>Each step of the \<^verbatim>\<open>try\<close> body followed by the rest of the body.\<close>

lemma bind_call: "bind_io (call ev r) k fr =
  (case r of Inl e \<Rightarrow> (Inl e, fr\<lparr>wld := (wld fr)\<lparr>trace := trace (wld fr) @ [ev]\<rparr>\<rparr>)
   | Inr x \<Rightarrow> k x (fr\<lparr>wld := (wld fr)\<lparr>trace := trace (wld fr) @ [ev]\<rparr>\<rparr>))"
  by (simp add: bind_io_def call_def split: sum.splits)

lemma bind_call_unit: "bind_io (call_unit ev r) k fr =
  (case r of Some e \<Rightarrow> (Inl e, fr\<lparr>wld := (wld fr)\<lparr>trace := trace (wld fr) @ [ev]\<rparr>\<rparr>)
   | None \<Rightarrow> k () (fr\<lparr>wld := (wld fr)\<lparr>trace := trace (wld fr) @ [ev]\<rparr>\<rparr>))"
  by (simp add: bind_io_def call_def call_unit_def split: option.splits)

lemma bind_effect: "bind_io (effect f) k fr = k () (fr\<lparr>wld := f (wld fr)\<rparr>)"
  by (simp add: bind_io_def effect_def)

lemma bind_raise_or:
  "bind_io (raise_or r) k fr = (case r of Inl e \<Rightarrow> (Inl e, fr) | Inr x \<Rightarrow> k x fr)"
  by (simp add: bind_io_def raise_or_def split: sum.splits)

lemma bind_return: "bind_io (return_io x) k fr = k x fr"
  by (simp add: bind_io_def return_io_def)

lemma bind_assign: "bind_io (assign_temp_path p) k fr = k () (fr\<lparr>temp_path := Some p\<rparr>)"
  by (simp add: bind_io_def assign_temp_path_def)

lemmas bind_simps = bind_call bind_call_unit bind_effect bind_raise_or bind_return bind_assign
  return_io_def loads_text_def

lemmas unfold_handler = upload_book_def try_body_def bind_simps finally_clause_def Let_def

lemmas scenario_defs = cover_jpg_def library_environ_def services_up_def started_def dune_text_def
  dune_def noon_def dune_env_def empty_world_def SHEET_NAME_def

lemmas startup_defs = module_init_def Let_def load_dotenv_def truthy_def services_up_def
  no_dotenv_def SHEET_NAME_def

lemma run_split:
  "upload_book g env file w = (fst (upload_book g env file w), snd (upload_book g env file w))"
  by simp

lemma run_from_outcome:
  "fst (upload_book g env file w) = out \<Longrightarrow>
   upload_book g env file w = (out, snd (upload_book g env file w))"
  by (metis prod.collapse)

section \<open>The timestamp has the shape of the format\<close>



section \<open>The temporary file\<close>

text \<open>Once \<^verbatim>\<open>temp_path\<close> is bound, that is once the upload has been read and written,
  the file is gone when the handler is left, whatever happens afterwards.\<close>

lemma temp_file_removed_once_bound:
  assumes "NamedTemporaryFile env (snd (splitext env (filename file))) = Inr tmp"
    and "file_read env = None"
    and "tmp_write env (content file) = None"
    and "upload_book g env file w = (out, w')"
  shows "files w' tmp = None"
  using assms
  by (auto simp: unfold_handler split: sum.splits option.splits)

text \<open>When reading the upload or writing it raises, the file that
  \<^verbatim>\<open>NamedTemporaryFile\<close> has created stays: \<^verbatim>\<open>temp_path\<close> is not bound yet and the
  \<^verbatim>\<open>finally\<close> clause has no name to remove.\<close>

lemma temp_file_left_when_write_fails:
  assumes "NamedTemporaryFile env (snd (splitext env (filename file))) = Inr tmp"
    and "file_read env \<noteq> None \<or> tmp_write env (content file) \<noteq> None"
    and "upload_book g env file w = (out, w')"
  shows "files w' tmp = Some []"
  using assms
  by (auto simp: unfold_handler split: sum.splits option.splits)

section \<open>The claims\<close>

text \<open>
  C1. When every call of the request returns, the inference text parses to a value whose
  \<^verbatim>\<open>title\<close> and \<^verbatim>\<open>genre\<close> are non-empty strings, and the store answers the insert with
  \<open>new_id\<close>, the handler returns the dict with status \<^verbatim>\<open>success\<close>, the parsed value as
  \<^verbatim>\<open>book\<close> and the message \<^verbatim>\<open>Book inserted successfully!\<close>, and the table \<^verbatim>\<open>books\<close>
  has gained exactly the row \<open>(new_id, title, genre)\<close>.
\<close>

theorem C1_success_inserts_one_row:
  assumes "NamedTemporaryFile env (snd (splitext env (filename file))) = Inr tmp"
    and "file_read env = None"
    and "tmp_write env (content file) = None"
    and "genai_Client env (environ g ''GEMINI_API_KEY'') = None"
    and "files_upload env tmp = None"
    and "generate_content env tmp = Inr (Some text)"
    and "json_loads env text = Inr book_data"
    and "getitem book_data ''title'' = Inr (PyStr title)"
    and "getitem book_data ''genre'' = Inr (PyStr genre)"
    and "title \<noteq> []" and "genre \<noteq> []"
    and "connect env (DB_HOST g) (DB_NAME g) (DB_USER g) (DB_PASS g) = None"
    and "execute env (PyStr title) (PyStr genre) = Inr new_id"
    and "commit env = None"
    and "worksheet env (sheet g) ''Sheet1'' = None"
    and "append_row env (sheet g) ''Sheet1''
           [PyInt new_id, PyStr title, PyStr genre, PyStr (strftime (now env))] = None"
  shows "fst (upload_book g env file w) =
           Returned (PyDict [(''status'', PyStr ''success''), (''book'', book_data),
                             (''message'', PyStr ''Book inserted successfully!'')])
       \<and> books (snd (upload_book g env file w)) = books w @ [(new_id, PyStr title, PyStr genre)]"
  using assms by (simp add: unfold_handler success_response_def)

theorem C1_witness:
  "getitem dune ''title'' = Inr (PyStr ''Dune'')
 \<and> getitem dune ''genre'' = Inr (PyStr ''Science Fiction'')
 \<and> fst (upload_book started dune_env cover_jpg empty_world) =
      Returned (PyDict [(''status'', PyStr ''success''),
                        (''book'', PyDict [(''title'', PyStr ''Dune''),
                                           (''genre'', PyStr ''Science Fiction'')]),
                        (''message'', PyStr ''Book inserted successfully!'')])
 \<and> books (snd (upload_book started dune_env cover_jpg empty_world)) =
      [(7, PyStr ''Dune'', PyStr ''Science Fiction'')]"
  using C1_success_inserts_one_row [of dune_env cover_jpg "''/tmp/tmpk3x9.jpg''" started dune_text
      dune "''Dune''" "''Science Fiction''" 7 empty_world]
  by (simp add: scenario_defs)

text \<open>
  C2. In every request, whatever the outside answers: when the append to the worksheet is
  attempted, the connection, the insert and the commit have been attempted before it; and
  when the store insert fails (the connection cannot be opened, the insert raises, the
  commit raises, or for any other reason no row has been committed), the append is not
  attempted and no worksheet has changed.
\<close>

theorem C2_sheet_append_only_after_store_insert:
  assumes "upload_book g env file w = (out, w')"
  shows "(EvAppendRow \<in> set (new_events w w') \<longrightarrow>
            EvConnect \<in> set (takeWhile (\<lambda>e. e \<noteq> EvAppendRow) (new_events w w'))
          \<and> EvExecute \<in> set (takeWhile (\<lambda>e. e \<noteq> EvAppendRow) (new_events w w'))
          \<and> EvCommit \<in> set (takeWhile (\<lambda>e. e \<noteq> EvAppendRow) (new_events w w')))
       \<and> (connect env (DB_HOST g) (DB_NAME g) (DB_USER g) (DB_PASS g) \<noteq> None
            \<or> (\<forall>title genre. isl (execute env title genre))
            \<or> commit env \<noteq> None
            \<or> books w' = books w \<longrightarrow>
          EvAppendRow \<notin> set (new_events w w') \<and> sheets w' = sheets w)"
  using assms
  apply (auto simp: unfold_handler new_events_def split: sum.splits option.splits)
    apply (metis sum.disc(2))+
  done

theorem C2_witness:
  "connect refused_env (DB_HOST started) (DB_NAME started) (DB_USER started) (DB_PASS started) =
     Some (Exception ''connection refused'')
 \<and> EvAppendRow \<notin> set (new_events empty_world
       (snd (upload_book started refused_env cover_jpg empty_world)))
 \<and> sheets (snd (upload_book started refused_env cover_jpg empty_world)) = sheets empty_world
 \<and> EvAppendRow \<in> set (new_events empty_world
       (snd (upload_book started dune_env cover_jpg empty_world)))
 \<and> EvExecute \<in> set (takeWhile (\<lambda>e. e \<noteq> EvAppendRow)
       (new_events empty_world (snd (upload_book started dune_env cover_jpg empty_world))))"
  using C2_sheet_append_only_after_store_insert [of started refused_env cover_jpg empty_world,
      OF run_split]
    C2_sheet_append_only_after_store_insert [of started dune_env cover_jpg empty_world,
      OF run_split]
  by (simp add: scenario_defs refused_env_def unfold_handler new_events_def)



text \<open>
  C4. The claim is that on every exit path the temporary file no longer exists after the
  request. The handler does not do that when the write of the upload raises: here
  \<^verbatim>\<open>tmp.write\<close> raises for lack of space, the request ends with the
  \<^verbatim>\<open>HTTPException\<close>, and the file \<^verbatim>\<open>/tmp/tmpk3x9.jpg\<close> that \<^verbatim>\<open>NamedTemporaryFile\<close>
  created is still on disk.
\<close>

theorem C4_temp_file_left_after_failed_write:
  "fst (upload_book started disk_full_env cover_jpg empty_world) =
     HTTPException 500 ''[Errno 28] No space left on device''
 \<and> files (snd (upload_book started disk_full_env cover_jpg empty_world)) ''/tmp/tmpk3x9.jpg'' =
     Some []"
  by (simp add: scenario_defs disk_full_env_def unfold_handler)

text \<open>
  C5. Whatever exception \<open>e\<close> ends the \<^verbatim>\<open>try\<close> body, at whatever step, the handler raises
  \<^verbatim>\<open>HTTPException\<close> with status 500 and \<^verbatim>\<open>str(e)\<close> as detail; and no call of the request
  is made twice (nothing is retried).
\<close>

theorem C5_exception_becomes_generic_error:
  assumes "try_body g env file \<lparr>wld = w, temp_path = None\<rparr> = (Inl e, fr)"
    and "upload_book g env file w = (out, w')"
  shows "out = HTTPException 500 (str_exn e) \<and> distinct (new_events w w')"
proof
  show "out = HTTPException 500 (str_exn e)"
    using assms by (simp add: upload_book_def)
  show "distinct (new_events w w')"
    using assms(2)
    by (auto simp: unfold_handler new_events_def split: sum.splits option.splits)
qed

theorem C5_witness:
  "try_body started exhausted_env cover_jpg \<lparr>wld = empty_world, temp_path = None\<rparr> =
     (Inl (Exception ''429 RESOURCE_EXHAUSTED''),
      \<lparr>wld = empty_world\<lparr>files := [''/tmp/tmpk3x9.jpg'' \<mapsto> ''JFIF''],
            trace := [EvNamedTemporaryFile, EvFileRead, EvTmpWrite, EvGenaiClient, EvFilesUpload,
                      EvGenerateContent]\<rparr>,
       temp_path = Some ''/tmp/tmpk3x9.jpg''\<rparr>)
 \<and> fst (upload_book started exhausted_env cover_jpg empty_world) =
     HTTPException 500 ''429 RESOURCE_EXHAUSTED''"
proof -
  have body: "try_body started exhausted_env cover_jpg \<lparr>wld = empty_world, temp_path = None\<rparr> =
     (Inl (Exception ''429 RESOURCE_EXHAUSTED''),
      \<lparr>wld = empty_world\<lparr>files := [''/tmp/tmpk3x9.jpg'' \<mapsto> ''JFIF''],
            trace := [EvNamedTemporaryFile, EvFileRead, EvTmpWrite, EvGenaiClient, EvFilesUpload,
                      EvGenerateContent]\<rparr>,
       temp_path = Some ''/tmp/tmpk3x9.jpg''\<rparr>)"
    by (simp add: scenario_defs exhausted_env_def try_body_def bind_simps)
  from C5_exception_becomes_generic_error [OF body run_split] body show ?thesis by simp
qed

text \<open>
  The claim C6 as it is written fails: with the four store options set and no
  \<^verbatim>\<open>GEMINI_API_KEY\<close>, the import completes and the process is started.
\<close>

theorem C6_counterexample:
  "load_dotenv no_dotenv store_only_environ ''GEMINI_API_KEY'' = None
 \<and> module_init services_up no_dotenv store_only_environ = Inr store_only_started"
  by (simp add: startup_defs store_only_environ_def store_only_started_def)

text \<open>
  C6, amended. At process start, when one of the four store options (\<^verbatim>\<open>DB_HOST\<close>,
  \<^verbatim>\<open>DB_NAME\<close>, \<^verbatim>\<open>DB_USER\<close>, \<^verbatim>\<open>DB_PASS\<close>) is absent, the import raises: the process
  does not start.
\<close>

theorem C6_missing_store_option_refuses_start:
  assumes "k \<in> {''DB_HOST'', ''DB_NAME'', ''DB_USER'', ''DB_PASS''}"
    and "load_dotenv dotenv environ0 k = None"
  shows "\<exists>e. module_init senv dotenv environ0 = Inl e"
  using assms
  by (auto simp: module_init_def Let_def truthy_def split: option.splits)

theorem C6_witness:
  "''DB_USER'' \<in> {''DB_HOST'', ''DB_NAME'', ''DB_USER'', ''DB_PASS''}
 \<and> load_dotenv no_dotenv no_user_environ ''DB_USER'' = None
 \<and> module_init services_up no_dotenv no_user_environ =
     Inl (Exception ''Missing one or more required database environment variables'')"
  using C6_missing_store_option_refuses_start [of "''DB_USER''" no_dotenv no_user_environ
      services_up]
  by (simp add: startup_defs no_user_environ_def)

text \<open>
  C7. When the request has gone as far as the commit and the spreadsheet step then raises
  (the lookup of the worksheet or the append), the handler raises the \<^verbatim>\<open>HTTPException\<close>,
  the committed row \<open>(new_id, title, genre)\<close> is in the table \<^verbatim>\<open>books\<close>, and no worksheet
  has gained a row: nothing undoes the insert.
\<close>

theorem C7_sheet_failure_keeps_store_row:
  assumes "NamedTemporaryFile env (snd (splitext env (filename file))) = Inr tmp"
    and "file_read env = None"
    and "tmp_write env (content file) = None"
    and "genai_Client env (environ g ''GEMINI_API_KEY'') = None"
    and "files_upload env tmp = None"
    and "generate_content env tmp = Inr (Some text)"
    and "json_loads env text = Inr book_data"
    and "getitem book_data ''title'' = Inr title"
    and "getitem book_data ''genre'' = Inr genre"
    and "connect env (DB_HOST g) (DB_NAME g) (DB_USER g) (DB_PASS g) = None"
    and "execute env title genre = Inr new_id"
    and "commit env = None"
    and "worksheet env (sheet g) ''Sheet1'' = Some e
       \<or> worksheet env (sheet g) ''Sheet1'' = None
         \<and> append_row env (sheet g) ''Sheet1''
              [PyInt new_id, title, genre, PyStr (strftime (now env))] = Some e"
    and "upload_book g env file w = (out, w')"
  shows "out = HTTPException 500 (str_exn e)
       \<and> books w' = books w @ [(new_id, title, genre)]
       \<and> sheets w' = sheets w"
  using assms
  by (auto simp: unfold_handler)

theorem C7_witness:
  "append_row quota_env (sheet started) ''Sheet1''
      [PyInt 7, PyStr ''Dune'', PyStr ''Science Fiction'', PyStr (strftime (now quota_env))] =
     Some (Exception ''Quota exceeded'')
 \<and> fst (upload_book started quota_env cover_jpg empty_world) =
     HTTPException 500 ''Quota exceeded''
 \<and> books (snd (upload_book started quota_env cover_jpg empty_world)) =
     [(7, PyStr ''Dune'', PyStr ''Science Fiction'')]
 \<and> sheets (snd (upload_book started quota_env cover_jpg empty_world)) = sheets empty_world"
  using C7_sheet_failure_keeps_store_row [of quota_env cover_jpg "''/tmp/tmpk3x9.jpg''" started
      dune_text dune "PyStr ''Dune''" "PyStr ''Science Fiction''" 7 "Exception ''Quota exceeded''"
      empty_world, OF _ _ _ _ _ _ _ _ _ _ _ _ _ run_split]
  by (simp add: scenario_defs quota_env_def)



text \<open>
  C9. In every request that returns, the \<^verbatim>\<open>book\<close> of the response is the value that
  \<^verbatim>\<open>json.loads\<close> made of the inference text, as it is: nothing is projected to
  \<^verbatim>\<open>title\<close> and \<^verbatim>\<open>genre\<close>, and a further field such as \<^verbatim>\<open>year\<close> reaches the client.
\<close>

theorem C9_book_is_parsed_json_verbatim:
  assumes "upload_book g env file w = (Returned response, w')"
  shows "\<exists>tmp text book_data.
           NamedTemporaryFile env (snd (splitext env (filename file))) = Inr tmp
         \<and> generate_content env tmp = Inr (Some text)
         \<and> json_loads env text = Inr book_data
         \<and> getitem response ''book'' = Inr book_data"
  using assms
  by (auto simp: unfold_handler success_response_def split: sum.splits option.splits)

theorem C9_witness:
  "json_loads year_env dune_text =
     Inr (PyDict [(''title'', PyStr ''Dune''), (''genre'', PyStr ''Science Fiction''),
                  (''year'', PyInt 1965)])
 \<and> fst (upload_book started year_env cover_jpg empty_world) =
     Returned (PyDict [(''status'', PyStr ''success''),
       (''book'', PyDict [(''title'', PyStr ''Dune''), (''genre'', PyStr ''Science Fiction''),
                          (''year'', PyInt 1965)]),
       (''message'', PyStr ''Book inserted successfully!'')])"
proof -
  have out: "fst (upload_book started year_env cover_jpg empty_world) =
      Returned (success_response dune_with_year)"
    by (simp add: scenario_defs year_env_def dune_with_year_def unfold_handler)
  from C9_book_is_parsed_json_verbatim [OF run_from_outcome [OF out]] out
  show ?thesis
    by (simp add: year_env_def dune_env_def dune_with_year_def success_response_def)
qed

text \<open>
  C10. Every exception that ends the \<^verbatim>\<open>try\<close> body is answered with status 500, and every
  \<^verbatim>\<open>HTTPException\<close> that leaves the handler has status 500, whichever step failed.
\<close>

theorem C10_failure_status_is_500:
  assumes "upload_book g env file w = (out, w')"
  shows "(\<forall>e fr. try_body g env file \<lparr>wld = w, temp_path = None\<rparr> = (Inl e, fr) \<longrightarrow>
            out = HTTPException 500 (str_exn e))
       \<and> (\<forall>status detail. out = HTTPException status detail \<longrightarrow> status = 500)"
  using assms
  by (auto simp: upload_book_def split: sum.splits prod.splits)

theorem C10_witness:
  "fst (upload_book started commit_fails_env cover_jpg empty_world) =
     HTTPException 500 ''server closed the connection''"
proof -
  have out: "fst (upload_book started commit_fails_env cover_jpg empty_world) =
      HTTPException 500 ''server closed the connection''"
    by (simp add: scenario_defs commit_fails_env_def unfold_handler)
  from C10_failure_status_is_500 [OF run_from_outcome [OF out]] out show ?thesis by blast
qed

end
